theory Spec2Isabelle
  imports Main "HOL-Library.AList"
begin

section \<open>The executor of xxl-job-executor-go: data model\<close>

text \<open>
  The development follows \<^verbatim>\<open>executor.go\<close>. The registry table and the running
  table are Go maps from strings to \<^verbatim>\<open>*Task\<close> pointers (\<^verbatim>\<open>make(map[string]*Task)\<close> in
  \<^verbatim>\<open>Init\<close>), and \<^verbatim>\<open>runTask\<close> writes the fields of a Task through such a pointer, so the
  Task objects live in an explicit store and the tables hold addresses.

  Every HTTP handler holds \<^verbatim>\<open>e.mu\<close> from its first to its last statement; a handler is
  therefore one transition of the state. A transition returns the new state and, in
  program order, the calls it made: responses written, log lines, invocations of a
  cancel function, calls of \<^verbatim>\<open>runList.Set\<close> and \<^verbatim>\<open>runList.Del\<close>, the goroutine it started,
  alerts and posts to the scheduler, and a panic if one is raised.
\<close>

type_synonym addr = nat
type_synonym TaskFunc = nat

text \<open>
  Modelled from the spec: the structs \<^verbatim>\<open>RunReq\<close>, \<^verbatim>\<open>killReq\<close> and \<^verbatim>\<open>idleBeatReq\<close> are
  declared in another file of the repository. The spec (3, 6) gives a run request a job id, a handler
  name, parameters, a blocking strategy and a timeout in seconds, and gives a kill and
  an idle-beat request a job id. The fields carry the names \<^verbatim>\<open>executor.go\<close> reads them
  by; \<^verbatim>\<open>JobID\<close> of the two small requests is \<open>kill_JobID\<close> and \<open>idle_JobID\<close> here. The
  integers are Go's \<^verbatim>\<open>int64\<close>; the executor does no arithmetic on them.
\<close>

record RunReq =
  JobID :: int
  ExecutorHandler :: string
  ExecutorParams :: string
  ExecutorBlockStrategy :: string
  ExecutorTimeout :: int

record killReq =
  kill_JobID :: int

record idleBeatReq =
  idle_JobID :: int

definition zero_RunReq :: RunReq where
  "zero_RunReq = \<lparr>JobID = 0, ExecutorHandler = [], ExecutorParams = [],
     ExecutorBlockStrategy = [], ExecutorTimeout = 0\<rparr>"

definition zero_killReq :: killReq where
  "zero_killReq = \<lparr>kill_JobID = 0\<rparr>"

text \<open>
  What \<^verbatim>\<open>json.Unmarshal(req, &param)\<close> leaves behind, \<^verbatim>\<open>param\<close> having been set to a
  pointer to the zero value just before: \<open>Decoded p\<close> is a nil error with \<^verbatim>\<open>*param = p\<close>;
  \<open>Null\<close> is a nil error with \<^verbatim>\<open>param = nil\<close> (the body is the JSON literal null);
  \<open>Failed p\<close> is a non-nil error with \<^verbatim>\<open>*param = p\<close>, where \<open>p\<close> is the zero value when
  the body is not valid JSON (the decoder checks the syntax before it writes anything).
  The decoder itself is not part of the program; a request carries the bytes of its
  body and this outcome.
\<close>

datatype 'a unmarshalled = Decoded 'a | Null | Failed 'a

record 'a request =
  body :: string
  unmarshal :: "'a unmarshalled"

text \<open>
  A context made by \<^verbatim>\<open>context.WithCancel\<close> or \<^verbatim>\<open>context.WithTimeout\<close>: its number (each
  call makes a new one), the value stored under \<^verbatim>\<open>"trace_id"\<close> and, for
  \<^verbatim>\<open>WithTimeout\<close>, the duration it was given, in nanoseconds. The cancel function
  returned with context \<open>n\<close> is represented by \<open>n\<close>.

  \<^verbatim>\<open>time.Duration(t) * time.Second\<close> is a product of two \<^verbatim>\<open>int64\<close> values and wraps: above
  9223372036 seconds the duration is not the one asked for, and may be negative.
\<close>

record Context =
  ctx_id :: nat
  trace_id :: string
  timeout :: "int option"

definition int64_wrap :: "int \<Rightarrow> int" where
  "int64_wrap i = (i + 2 ^ 63) mod 2 ^ 64 - 2 ^ 63"

definition seconds_Duration :: "int \<Rightarrow> int" where
  "seconds_Duration t = int64_wrap (t * 1000000000)"

text \<open>
  Modelled from the spec: the struct \<^verbatim>\<open>Task\<close> is declared in another file. The spec (3)
  gives a Task a job id, a handler name, the parameters of the run request, the work
  function, a cancellation capability and an optional deadline. The fields are the
  ones \<^verbatim>\<open>RegTask\<close> and \<^verbatim>\<open>runTask\<close> assign, under their names there, but for \<^verbatim>\<open>Id\<close>, which
  is \<open>TaskId\<close> here, and \<^verbatim>\<open>log\<close>, of which only whether it is set is kept. \<open>None\<close> is
  Go's nil: \<^verbatim>\<open>&Task{}\<close> has every field nil or zero.
\<close>

record Task =
  TaskId :: int
  Name :: string
  Ext :: "Context option"
  Param :: "RunReq option"
  Cancel :: "nat option"
  fn :: "TaskFunc option"
  log_bound :: bool

definition zero_Task :: Task where
  "zero_Task = \<lparr>TaskId = 0, Name = [], Ext = None, Param = None, Cancel = None,
     fn = None, log_bound = False\<rparr>"

subsection \<open>The task table\<close>

text \<open>
  Modelled from the spec: the type \<^verbatim>\<open>taskList\<close> and its methods \<^verbatim>\<open>Exists\<close>, \<^verbatim>\<open>Get\<close>,
  \<^verbatim>\<open>Set\<close> and \<^verbatim>\<open>Del\<close> are declared in another file. The spec (4.1) gives a keyed table
  with \<open>exists(id)\<close>, \<open>get(id)\<close> returning the Task or absent, \<open>set(id, task)\<close> that
  overwrites and \<open>delete(id)\<close> that does nothing when the key is absent. The values are
  the \<^verbatim>\<open>*Task\<close> pointers of the map built in \<^verbatim>\<open>Init\<close>: \<^verbatim>\<open>RegTask\<close> stores a pointer, and
  \<^verbatim>\<open>runTask\<close> compares what \<^verbatim>\<open>Get\<close> returns with nil and assigns fields through it. The
  table is a list of pairs so that the number of entries under one key is something
  to prove, not a consequence of the type.
\<close>

type_synonym taskList = "(string \<times> addr) list"

definition Exists :: "taskList \<Rightarrow> string \<Rightarrow> bool" where
  "Exists t key = (map_of t key \<noteq> None)"

definition Get :: "taskList \<Rightarrow> string \<Rightarrow> addr option" where
  "Get t key = map_of t key"

definition Set_task :: "taskList \<Rightarrow> string \<Rightarrow> addr \<Rightarrow> taskList" where
  "Set_task t key val = AList.update key val t"

definition Del :: "taskList \<Rightarrow> string \<Rightarrow> taskList" where
  "Del t key = AList.delete key t"

definition entries :: "taskList \<Rightarrow> string \<Rightarrow> (string \<times> addr) list" where
  "entries t key = filter (\<lambda>kv. fst kv = key) t"

subsection \<open>Helpers declared in other files\<close>

text \<open>
  Modelled from the spec: \<^verbatim>\<open>Int64ToStr\<close> is declared in another file. The spec keys the
  table by the job id written as a string; the decimal writing of \<^verbatim>\<open>strconv\<close> is used,
  which is also what the verb \<^verbatim>\<open>%d\<close> of \<^verbatim>\<open>fmt.Sprintf\<close> prints.
\<close>

fun digits :: "nat \<Rightarrow> string" where
  "digits n = (if n < 10 then [char_of (48 + n)] else digits (n div 10) @ [char_of (48 + n mod 10)])"

declare digits.simps [simp del]

definition Int64ToStr :: "int \<Rightarrow> string" where
  "Int64ToStr i = (if i < 0 then CHR ''-'' # digits (nat (- i)) else digits (nat i))"

text \<open>
  Modelled from the spec: the constants \<^verbatim>\<open>SuccessCode\<close>, \<^verbatim>\<open>FailureCode\<close> and \<^verbatim>\<open>coverEarly\<close>
  are declared in another file. The spec says only that success and failure are two
  body-embedded domain codes and that \<open>coverEarly\<close> is one of the blocking strategies;
  the values are the ones of the XXL-JOB protocol. The proofs below use nothing about
  them except that the two codes differ.
\<close>

definition SuccessCode :: int where
  "SuccessCode = 200"

definition FailureCode :: int where
  "FailureCode = 500"

definition coverEarly :: string where
  "coverEarly = ''COVER_EARLY''"

text \<open>
  Modelled from the spec: the functions \<^verbatim>\<open>returnCall\<close>, \<^verbatim>\<open>returnKill\<close>, \<^verbatim>\<open>returnIdleBeat\<close>,
  \<^verbatim>\<open>returnGeneral\<close> and \<^verbatim>\<open>returnPing\<close> that build the JSON bodies are declared in
  another file. A body is kept as the call that builds it. The spec (6) gives every
  response a body-embedded domain code, success or failure: the code of the first
  three is the one they are called with, and \<^verbatim>\<open>returnGeneral\<close> and \<^verbatim>\<open>returnPing\<close> are the
  static success responses of \<^verbatim>\<open>beat\<close> and \<^verbatim>\<open>ping\<close> (4.4).
\<close>

datatype response =
    returnCall "RunReq option" int string
  | returnKill killReq int
  | returnIdleBeat int
  | returnGeneral
  | returnPing

fun code_of :: "response \<Rightarrow> int" where
  "code_of (returnCall p c m) = c"
| "code_of (returnKill p c) = c"
| "code_of (returnIdleBeat c) = c"
| "code_of returnGeneral = SuccessCode"
| "code_of returnPing = SuccessCode"

subsection \<open>Strings\<close>

text \<open>
  A string is the list of its bytes, in UTF-8. \<^verbatim>\<open>strings.ToLower\<close> lowers rune by rune.
  On the bytes below 128 it maps the letters A to Z to a to z and keeps the others.
  Two runes beyond ASCII have an ASCII lower case: U+0130 (bytes C4 B0) becomes i and
  U+212A (bytes E2 84 AA) becomes k. Every other rune beyond ASCII, and every byte that
  is not valid UTF-8, becomes a rune beyond ASCII again; the model keeps the bytes of
  those as they are, where Go writes the bytes of the lowered rune, so the result
  agrees with Go's on where its ASCII bytes are and what they are, which is all a
  search for an ASCII marker reads. \<^verbatim>\<open>strings.Contains\<close> is true when the second string
  occurs in the first as a contiguous run, the empty string always.
\<close>

definition lower_char :: "char \<Rightarrow> char" where
  "lower_char c = (let n = (of_char c :: nat) in if 65 \<le> n \<and> n \<le> 90 then char_of (n + 32) else c)"

fun ToLower :: "string \<Rightarrow> string" where
  "ToLower [] = []"
| "ToLower (c # cs) =
     (if c = CHR 0xC4 \<and> take 1 cs = [CHR 0xB0] then CHR ''i'' # ToLower (drop 1 cs)
      else if c = CHR 0xE2 \<and> take 2 cs = [CHR 0x84, CHR 0xAA] then CHR ''k'' # ToLower (drop 2 cs)
      else lower_char c # ToLower cs)"

fun Contains :: "string \<Rightarrow> string \<Rightarrow> bool" where
  "Contains [] substr = (substr = [])"
| "Contains (c # cs) substr = (take (length substr) (c # cs) = substr \<or> Contains cs substr)"

subsection \<open>The executor and the calls it makes\<close>

text \<open>
  Modelled from the spec: the struct \<^verbatim>\<open>Options\<close> is declared in another file; these are the
  three options the callback path reads. Of the fields of \<^verbatim>\<open>executor\<close>, the two tables
  are kept, with the store of the Task objects they point into and the counters that
  number new Task objects and new contexts. The mutex is the atomicity of the
  handlers, and the logger is the log events.
\<close>

record Options =
  ServerAddr :: string
  NotifyWebhook :: string
  NotifySecret :: string

record executor =
  opts :: Options
  regList :: taskList
  runList :: taskList
  store :: "addr \<Rightarrow> Task"
  next_task :: addr
  next_ctx :: nat

text \<open>
  A log event carries the text of the line, or the format string when the line has
  arguments. \<open>Alert\<close> is the call of the function \<^verbatim>\<open>Alert\<close> with its four arguments
  (the function hands the text to a notification library and drops its error);
  \<open>Post\<close> is the call of \<^verbatim>\<open>e.post\<close> with the URL and the body.
\<close>

datatype event =
    Write response
  | Log_Info string
  | Log_Error string
  | Invoke_Cancel nat
  | RunList_Del string
  | RunList_Set string addr
  | Go_Run addr
  | Alert string string string bool
  | Post string response
  | Panic

fun is_Write :: "event \<Rightarrow> bool" where
  "is_Write (Write r) = True"
| "is_Write ev = False"

fun is_Invoke_Cancel :: "event \<Rightarrow> bool" where
  "is_Invoke_Cancel (Invoke_Cancel c) = True"
| "is_Invoke_Cancel ev = False"

fun is_runList_call :: "event \<Rightarrow> bool" where
  "is_runList_call (RunList_Del k) = True"
| "is_runList_call (RunList_Set k a) = True"
| "is_runList_call ev = False"

fun is_Alert :: "event \<Rightarrow> bool" where
  "is_Alert (Alert w s m b) = True"
| "is_Alert ev = False"

fun is_Post :: "event \<Rightarrow> bool" where
  "is_Post (Post u b) = True"
| "is_Post ev = False"

fun is_Go_Run :: "event \<Rightarrow> bool" where
  "is_Go_Run (Go_Run a) = True"
| "is_Go_Run ev = False"

text \<open>The running table after each call of \<^verbatim>\<open>runList.Set\<close> or \<^verbatim>\<open>runList.Del\<close> of a trace.\<close>

fun apply_event :: "taskList \<Rightarrow> event \<Rightarrow> taskList" where
  "apply_event t (RunList_Del k) = Del t k"
| "apply_event t (RunList_Set k a) = Set_task t k a"
| "apply_event t ev = t"

fun instants :: "taskList \<Rightarrow> event list \<Rightarrow> taskList list" where
  "instants t [] = [t]"
| "instants t (ev # evs) = t # instants (apply_event t ev) evs"

section \<open>The operations\<close>

text \<open>\<^verbatim>\<open>Init\<close>: both tables are made empty. The registry goroutine is not part of this model.\<close>

definition Init :: "Options \<Rightarrow> executor" where
  "Init os = \<lparr>opts = os, regList = [], runList = [], store = (\<lambda>a. zero_Task),
     next_task = 0, next_ctx = 0\<rparr>"

text \<open>\<^verbatim>\<open>RegTask\<close>: a new Task object with only \<^verbatim>\<open>fn\<close> set is stored under the pattern.\<close>

definition RegTask :: "executor \<Rightarrow> string \<Rightarrow> TaskFunc \<Rightarrow> executor" where
  "RegTask e pattern task =
     (let t = next_task e in
      e\<lparr>store := (store e)(t := zero_Task\<lparr>fn := Some task\<rparr>),
        next_task := Suc t,
        regList := Set_task (regList e) pattern t\<rparr>)"

text \<open>
  Lines 146 to 150 of \<^verbatim>\<open>runTask\<close>, the branch of the strategy \<^verbatim>\<open>coverEarly\<close>: the task
  found under the job id is cancelled, and the key made from the \<^verbatim>\<open>Id\<close> field of that
  task is deleted.
\<close>

definition coverOld :: "executor \<Rightarrow> RunReq \<Rightarrow> executor \<times> event list" where
  "coverOld e param =
     (case Get (runList e) (Int64ToStr (JobID param)) of
        None \<Rightarrow> (e, [])
      | Some oldTask \<Rightarrow>
          (case Cancel (store e oldTask) of
             None \<Rightarrow> (e, [Panic])
           | Some c \<Rightarrow>
               (e\<lparr>runList := Del (runList e) (Int64ToStr (TaskId (store e oldTask)))\<rparr>,
                [Invoke_Cancel c, RunList_Del (Int64ToStr (TaskId (store e oldTask)))])))"

text \<open>
  Lines 158 to 180 of \<^verbatim>\<open>runTask\<close>: the task registered under the handler name gets a new
  context and cancel function, the job id, the name, the parameters and the logger,
  all written through the pointer the registry holds; the same pointer is stored in
  the running table, the goroutine is started and the success response is written.
\<close>

definition admit :: "executor \<Rightarrow> RunReq \<Rightarrow> executor \<times> event list" where
  "admit e param =
     (let c = next_ctx e;
          cxt = \<lparr>ctx_id = c,
                 trace_id = ExecutorHandler param @ '':'' @ Int64ToStr (JobID param),
                 timeout = (if ExecutorTimeout param > 0
                            then Some (seconds_Duration (ExecutorTimeout param)) else None)\<rparr>
      in case Get (regList e) (ExecutorHandler param) of
           None \<Rightarrow> (e\<lparr>next_ctx := Suc c\<rparr>, [Panic])
         | Some task \<Rightarrow>
             (e\<lparr>store := (store e)(task := (store e task)\<lparr>Ext := Some cxt, Cancel := Some c,
                    TaskId := JobID param, Name := ExecutorHandler param,
                    Param := Some param, log_bound := True\<rparr>),
                next_ctx := Suc c,
                runList := Set_task (runList e) (Int64ToStr (JobID param)) task\<rparr>,
              [RunList_Set (Int64ToStr (JobID param)) task,
               Go_Run task,
               Log_Info (''task['' @ Int64ToStr (JobID param) @ ''] start:'' @ ExecutorHandler param),
               Write returnGeneral]))"

definition runTask :: "executor \<Rightarrow> RunReq request \<Rightarrow> executor \<times> event list" where
  "runTask e r =
     (case unmarshal r of
        Failed param \<Rightarrow>
          (e, [Write (returnCall (Some param) FailureCode ''params err''),
               Log_Error (''params err:'' @ body r)])
      | Null \<Rightarrow> (e, [Log_Info ''task params: %+v'', Panic])
      | Decoded param \<Rightarrow>
          if \<not> Exists (regList e) (ExecutorHandler param) then
            (e, [Log_Info ''task params: %+v'',
                 Write (returnCall (Some param) FailureCode ''Task not registered''),
                 Log_Error (''task not registered:'' @ ExecutorHandler param)])
          else if Exists (runList e) (Int64ToStr (JobID param)) then
            (if ExecutorBlockStrategy param = coverEarly then
               (let (e1, tr1) = coverOld e param in
                if Panic \<in> set tr1 then (e1, Log_Info ''task params: %+v'' # tr1)
                else (let (e2, tr2) = admit e1 param
                      in (e2, Log_Info ''task params: %+v'' # tr1 @ tr2)))
             else
               (e, [Log_Info ''task params: %+v'',
                    Write (returnCall (Some param) FailureCode ''There are tasks running''),
                    Log_Error (''task already running:'' @ ExecutorHandler param)]))
          else
            (let (e2, tr2) = admit e param in (e2, Log_Info ''task params: %+v'' # tr2)))"

text \<open>
  \<^verbatim>\<open>killTask\<close>: the error of the decoder is dropped, so a body that failed to decode is
  handled with whatever \<^verbatim>\<open>param\<close> holds.
\<close>

definition killTask :: "executor \<Rightarrow> killReq request \<Rightarrow> executor \<times> event list" where
  "killTask e r =
     (case (case unmarshal r of Decoded p \<Rightarrow> Some p | Failed p \<Rightarrow> Some p | Null \<Rightarrow> None) of
        None \<Rightarrow> (e, [Panic])
      | Some param \<Rightarrow>
          if \<not> Exists (runList e) (Int64ToStr (kill_JobID param)) then
            (e, [Write (returnKill param FailureCode),
                 Log_Error (''task not running:'' @ Int64ToStr (kill_JobID param))])
          else
            (case Get (runList e) (Int64ToStr (kill_JobID param)) of
               None \<Rightarrow> (e, [Panic])
             | Some task \<Rightarrow>
                 (case Cancel (store e task) of
                    None \<Rightarrow> (e, [Panic])
                  | Some c \<Rightarrow>
                      (e\<lparr>runList := Del (runList e) (Int64ToStr (kill_JobID param))\<rparr>,
                       [Invoke_Cancel c,
                        RunList_Del (Int64ToStr (kill_JobID param)),
                        Write returnGeneral]))))"

definition idleBeat :: "executor \<Rightarrow> idleBeatReq request \<Rightarrow> executor \<times> event list" where
  "idleBeat e r =
     (case unmarshal r of
        Failed param \<Rightarrow>
          (e, [Write (returnIdleBeat FailureCode), Log_Error (''params err:'' @ body r)])
      | Null \<Rightarrow> (e, [Panic])
      | Decoded param \<Rightarrow>
          if Exists (runList e) (Int64ToStr (idle_JobID param)) then
            (e, [Write (returnIdleBeat FailureCode),
                 Log_Error (''idleBeat task['' @ Int64ToStr (idle_JobID param) @ ''] running'')])
          else
            (e, [Log_Info ''idleBeat task params: %v'', Write returnGeneral]))"

text \<open>
  \<^verbatim>\<open>callback\<close> is called by the goroutine of a task with the pointer it was started
  with. What the network does is an input: \<^verbatim>\<open>e.post\<close> returns an error, or a response
  whose body \<^verbatim>\<open>ioutil.ReadAll\<close> fails to read or reads.
\<close>

datatype read_result = ReadErr string | ReadOk string

datatype post_result = PostErr string | PostOk read_result

definition callback_failed_message :: "Task \<Rightarrow> RunReq \<Rightarrow> string \<Rightarrow> string" where
  "callback_failed_message t p reason =
     ''task callback failed alert'' @ [CHR 0x0A] @ ''taskID: '' @ Int64ToStr (TaskId t) @ [CHR 0x0A]
     @ ''task name: '' @ Name t @ [CHR 0x0A] @ ''task params: '' @ ExecutorParams p @ [CHR 0x0A]
     @ ''failed reason: '' @ reason"

definition execution_failed_message :: "Task \<Rightarrow> RunReq \<Rightarrow> string \<Rightarrow> string" where
  "execution_failed_message t p reason =
     ''task execution failed alert'' @ [CHR 0x0A] @ ''taskID: '' @ Int64ToStr (TaskId t) @ [CHR 0x0A]
     @ ''task name: '' @ Name t @ [CHR 0x0A] @ ''task params: '' @ ExecutorParams p @ [CHR 0x0A]
     @ ''failed reason: '' @ reason"

definition callback :: "executor \<Rightarrow> addr \<Rightarrow> int \<Rightarrow> string \<Rightarrow> post_result \<Rightarrow> executor \<times> event list" where
  "callback e task code msg net =
     (let t = store e task;
          e' = e\<lparr>runList := Del (runList e) (Int64ToStr (TaskId t))\<rparr>;
          tr = [RunList_Del (Int64ToStr (TaskId t)),
                Post (ServerAddr (opts e) @ ''/api/callback'') (returnCall (Param t) code msg)]
      in case net of
           PostErr err \<Rightarrow>
             (case Param t of
                None \<Rightarrow> (e', tr @ [Panic])
              | Some p \<Rightarrow>
                  (e', tr @ [Alert (NotifyWebhook (opts e)) (NotifySecret (opts e))
                                (callback_failed_message t p err) True,
                             Log_Error ''callback err : '']))
         | PostOk (ReadErr err) \<Rightarrow> (e', tr @ [Log_Error ''callback ReadAll err : ''])
         | PostOk (ReadOk b) \<Rightarrow>
             if Contains (ToLower msg) ''fail'' \<or> Contains (ToLower msg) ''error'' then
               (case Param t of
                  None \<Rightarrow> (e', tr @ [Panic])
                | Some p \<Rightarrow>
                    (e', tr @ [Alert (NotifyWebhook (opts e)) (NotifySecret (opts e))
                                  (execution_failed_message t p msg) True,
                               Log_Info (''task callback success:'' @ b)]))
             else (e', tr @ [Log_Info (''task callback success:'' @ b)]))"

subsection \<open>Sequences of calls\<close>

datatype call =
    Call_RegTask string TaskFunc
  | Call_runTask "RunReq request"
  | Call_killTask "killReq request"
  | Call_idleBeat "idleBeatReq request"
  | Call_callback addr int string post_result

fun step :: "executor \<Rightarrow> call \<Rightarrow> executor \<times> event list" where
  "step e (Call_RegTask pattern task) = (RegTask e pattern task, [])"
| "step e (Call_runTask r) = runTask e r"
| "step e (Call_killTask r) = killTask e r"
| "step e (Call_idleBeat r) = idleBeat e r"
| "step e (Call_callback task code msg net) = callback e task code msg net"

fun run_calls :: "executor \<Rightarrow> call list \<Rightarrow> executor \<times> event list" where
  "run_calls e [] = (e, [])"
| "run_calls e (c # cs) =
     (let (e1, tr1) = step e c; (e2, tr2) = run_calls e1 cs in (e2, tr1 @ tr2))"

subsection \<open>The invariant of the running table\<close>

text \<open>
  Every task in the running table has a cancel function, and every address in a table
  has been allocated by \<^verbatim>\<open>RegTask\<close>. It holds after \<^verbatim>\<open>Init\<close> and every operation keeps it.
\<close>

definition running_ok :: "executor \<Rightarrow> bool" where
  "running_ok e \<longleftrightarrow>
     (\<forall>kv \<in> set (runList e). snd kv < next_task e \<and> Cancel (store e (snd kv)) \<noteq> None) \<and>
     (\<forall>kv \<in> set (regList e). snd kv < next_task e)"

subsection \<open>Concrete requests and states\<close>

definition demo_opts :: Options where
  "demo_opts = \<lparr>ServerAddr = ''http://127.0.0.1/xxl-job-admin'', NotifyWebhook = ''hook'',
     NotifySecret = ''secret''\<rparr>"

definition demo_run :: "int \<Rightarrow> string \<Rightarrow> string \<Rightarrow> RunReq request" where
  "demo_run j h s = \<lparr>body = ''(json)'', unmarshal = Decoded \<lparr>JobID = j, ExecutorHandler = h,
     ExecutorParams = [], ExecutorBlockStrategy = s, ExecutorTimeout = 0\<rparr>\<rparr>"

definition demo_malformed_run :: "RunReq request" where
  "demo_malformed_run = \<lparr>body = ''{'', unmarshal = Failed zero_RunReq\<rparr>"

definition demo_kill :: "int \<Rightarrow> killReq request" where
  "demo_kill j = \<lparr>body = ''(json)'', unmarshal = Decoded \<lparr>kill_JobID = j\<rparr>\<rparr>"

definition demo_malformed_kill :: "killReq request" where
  "demo_malformed_kill = \<lparr>body = ''{'', unmarshal = Failed zero_killReq\<rparr>"

definition demo_idleBeat :: "int \<Rightarrow> idleBeatReq request" where
  "demo_idleBeat j = \<lparr>body = ''(json)'', unmarshal = Decoded \<lparr>idle_JobID = j\<rparr>\<rparr>"

text \<open>One handler registered, and job 1 running on it.\<close>

definition demo_busy :: executor where
  "demo_busy = fst (run_calls (Init demo_opts)
     [Call_RegTask ''demoJob'' 0, Call_runTask (demo_run 1 ''demoJob'' [])])"

text \<open>One handler registered, and job 0 running on it.\<close>

definition demo_busy0 :: executor where
  "demo_busy0 = fst (run_calls (Init demo_opts)
     [Call_RegTask ''demoJob'' 0, Call_runTask (demo_run 0 ''demoJob'' [])])"

text \<open>One handler registered, then job 1 and job 2 admitted on that same handler.\<close>

definition shared_calls :: "call list" where
  "shared_calls = [Call_RegTask ''demoJob'' 0, Call_runTask (demo_run 1 ''demoJob'' []),
     Call_runTask (demo_run 2 ''demoJob'' [])]"

definition demo_shared :: executor where
  "demo_shared = fst (run_calls (Init demo_opts) shared_calls)"

section \<open>Facts about the task table\<close>

lemma Exists_Get: "Exists t key \<longleftrightarrow> (\<exists>a. Get t key = Some a)"
  by (simp add: Exists_def Get_def)

lemma Get_mem: "Get t key = Some a \<Longrightarrow> (key, a) \<in> set t"
  by (simp add: Get_def map_of_SomeD)

lemma Exists_Del_same: "\<not> Exists (Del t key) key"
  by (simp add: Exists_def Del_def delete_conv')

lemma Get_Del_other: "k \<noteq> key \<Longrightarrow> Get (Del t key) k = Get t k"
  by (simp add: Get_def Del_def)

lemma Del_absent: "\<not> Exists t key \<Longrightarrow> Del t key = t"
  by (simp add: Exists_def Del_def map_of_eq_None_iff)

lemma Get_Set_task: "Get (Set_task t key a) k = (if k = key then Some a else Get t k)"
  by (simp add: Get_def Set_task_def update_conv')

lemma set_Del_subset: "set (Del t key) \<subseteq> set t"
  by (auto simp: Del_def AList.delete_eq)

lemma set_Set_task_subset: "set (Set_task t key a) \<subseteq> insert (key, a) (set t)"
  unfolding Set_task_def by (induction t) auto

lemma distinct_Del: "distinct (map fst t) \<Longrightarrow> distinct (map fst (Del t key))"
  by (simp add: Del_def distinct_delete)

lemma distinct_Set_task: "distinct (map fst t) \<Longrightarrow> distinct (map fst (Set_task t key a))"
  by (simp add: Set_task_def distinct_update)

lemma entries_le_one: "distinct (map fst t) \<Longrightarrow> length (entries t key) \<le> 1"
proof (induction t)
  case Nil
  then show ?case by (simp add: entries_def)
next
  case (Cons kv t)
  have "fst kv \<notin> fst ` set t"
    using Cons.prems by simp
  then have "\<forall>x \<in> set t. fst x \<noteq> fst kv"
    by (metis imageI)
  then have "fst kv = key \<Longrightarrow> entries t key = []"
    by (auto simp: entries_def filter_empty_conv)
  with Cons show ?case by (auto simp: entries_def)
qed

lemma distinct_apply_event: "distinct (map fst t) \<Longrightarrow> distinct (map fst (apply_event t ev))"
  by (cases ev) (simp_all add: distinct_Del distinct_Set_task)

lemma distinct_instants:
  "distinct (map fst t) \<Longrightarrow> t' \<in> set (instants t tr) \<Longrightarrow> distinct (map fst t')"
proof (induction tr arbitrary: t)
  case Nil
  then show ?case by simp
next
  case (Cons ev tr)
  from Cons.prems(2) have "t' = t \<or> t' \<in> set (instants (apply_event t ev) tr)" by simp
  then show ?case
    using Cons.IH [OF distinct_apply_event [OF Cons.prems(1)]] Cons.prems(1) by blast
qed

lemma last_instants: "last (instants t tr) = foldl apply_event t tr"
proof (induction tr arbitrary: t)
  case Nil
  show ?case by simp
next
  case (Cons ev tr)
  have "instants (apply_event t ev) tr \<noteq> []" by (cases tr) simp_all
  with Cons show ?case by simp
qed

section \<open>Facts about the operations\<close>

lemma killTask_absent:
  assumes "unmarshal r = Decoded p \<or> unmarshal r = Failed p"
    and "\<not> Exists (runList e) (Int64ToStr (kill_JobID p))"
  shows "killTask e r = (e, [Write (returnKill p FailureCode),
           Log_Error (''task not running:'' @ Int64ToStr (kill_JobID p))])"
  using assms by (auto simp: killTask_def)

lemma killTask_present:
  assumes "unmarshal r = Decoded p \<or> unmarshal r = Failed p"
    and "Get (runList e) (Int64ToStr (kill_JobID p)) = Some task"
    and "Cancel (store e task) = Some c"
  shows "killTask e r = (e\<lparr>runList := Del (runList e) (Int64ToStr (kill_JobID p))\<rparr>,
           [Invoke_Cancel c, RunList_Del (Int64ToStr (kill_JobID p)), Write returnGeneral])"
  using assms by (auto simp: killTask_def Exists_Get)

lemma running_ok_Cancel:
  assumes "running_ok e" and "Get (runList e) key = Some task"
  shows "\<exists>c. Cancel (store e task) = Some c"
proof -
  have "(key, task) \<in> set (runList e)" using assms(2) by (rule Get_mem)
  with assms(1) have "Cancel (store e task) \<noteq> None" by (auto simp: running_ok_def)
  then show ?thesis by auto
qed

lemma running_ok_Init: "running_ok (Init os)"
  by (simp add: running_ok_def Init_def)

lemma running_ok_RegTask:
  assumes "running_ok e"
  shows "running_ok (RegTask e pattern task)"
proof -
  have reg: "set (Set_task (regList e) pattern (next_task e)) \<subseteq> insert (pattern, next_task e) (set (regList e))"
    by (rule set_Set_task_subset)
  show ?thesis
    using assms reg unfolding running_ok_def RegTask_def Let_def
    by (auto simp: less_Suc_eq)
qed

lemma running_ok_runList_Del:
  assumes "running_ok e"
  shows "running_ok (e\<lparr>runList := Del (runList e) key\<rparr>)"
  using assms set_Del_subset [of "runList e" key] unfolding running_ok_def by auto

lemma running_ok_coverOld:
  assumes "running_ok e"
  shows "running_ok (fst (coverOld e p))"
  using assms by (auto simp: coverOld_def running_ok_runList_Del split: option.splits)

lemma admit_registered:
  assumes "Get (regList e) (ExecutorHandler p) = Some task"
  shows "runList (fst (admit e p)) = Set_task (runList e) (Int64ToStr (JobID p)) task"
    and "regList (fst (admit e p)) = regList e"
    and "next_task (fst (admit e p)) = next_task e"
    and "Cancel (store (fst (admit e p)) task) = Some (next_ctx e)"
    and "a \<noteq> task \<Longrightarrow> store (fst (admit e p)) a = store e a"
    and "snd (admit e p) = [RunList_Set (Int64ToStr (JobID p)) task, Go_Run task,
           Log_Info (''task['' @ Int64ToStr (JobID p) @ ''] start:'' @ ExecutorHandler p),
           Write returnGeneral]"
  using assms by (simp_all add: admit_def Let_def)

lemma running_ok_admit:
  assumes "running_ok e"
  shows "running_ok (fst (admit e p))"
proof (cases "Get (regList e) (ExecutorHandler p)")
  case None
  then show ?thesis using assms by (simp add: admit_def Let_def running_ok_def)
next
  case (Some task)
  note adm = admit_registered [OF Some]
  have lt: "task < next_task e"
    using Get_mem [OF Some] assms by (auto simp: running_ok_def)
  have run: "snd kv < next_task e \<and> Cancel (store (fst (admit e p)) (snd kv)) \<noteq> None"
    if "kv \<in> set (runList (fst (admit e p)))" for kv
  proof (cases "snd kv = task")
    case True
    then show ?thesis using lt adm(4) by simp
  next
    case False
    from that have "kv \<in> insert (Int64ToStr (JobID p), task) (set (runList e))"
      using set_Set_task_subset [of "runList e" "Int64ToStr (JobID p)" task] adm(1) by auto
    with False have "kv \<in> set (runList e)" by auto
    with assms have "snd kv < next_task e \<and> Cancel (store e (snd kv)) \<noteq> None"
      by (simp add: running_ok_def)
    then show ?thesis using adm(5) [OF False] by simp
  qed
  have reg: "snd kv < next_task e" if "kv \<in> set (regList e)" for kv
    using assms that by (simp add: running_ok_def)
  show ?thesis
    unfolding running_ok_def using run reg by (simp add: adm(2,3))
qed

lemma running_ok_runTask:
  assumes "running_ok e"
  shows "running_ok (fst (runTask e r))"
proof -
  have a: "\<And>p. running_ok (fst (admit e p))"
    using assms by (rule running_ok_admit)
  have c: "\<And>p. running_ok (fst (coverOld e p))"
    using assms by (rule running_ok_coverOld)
  have ca: "\<And>p. running_ok (fst (admit (fst (coverOld e p)) p))"
    using c by (rule running_ok_admit)
  show ?thesis
    using assms a c ca
    by (simp add: runTask_def split_beta split: unmarshalled.splits)
qed

lemma running_ok_killTask:
  assumes "running_ok e"
  shows "running_ok (fst (killTask e r))"
  using assms by (auto simp: killTask_def running_ok_runList_Del split: unmarshalled.splits option.splits)

lemma fst_idleBeat: "fst (idleBeat e r) = e"
  by (simp add: idleBeat_def split: unmarshalled.splits)

lemma fst_callback:
  "fst (callback e task code msg net) = e\<lparr>runList := Del (runList e) (Int64ToStr (TaskId (store e task)))\<rparr>"
  by (simp add: callback_def Let_def split: post_result.splits read_result.splits option.splits)

lemma running_ok_step:
  assumes "running_ok e"
  shows "running_ok (fst (step e c))"
  using assms
  by (cases c) (simp_all add: running_ok_RegTask running_ok_runTask running_ok_killTask
      fst_idleBeat fst_callback running_ok_runList_Del)

lemma running_ok_run_calls:
  assumes "running_ok e"
  shows "running_ok (fst (run_calls e cs))"
  using assms
proof (induction cs arbitrary: e)
  case Nil
  then show ?case by simp
next
  case (Cons c cs)
  have "running_ok (fst (step e c))"
    using Cons.prems by (rule running_ok_step)
  then have "running_ok (fst (run_calls (fst (step e c)) cs))"
    by (rule Cons.IH)
  then show ?case by (simp add: split_beta)
qed

lemma codes_differ: "FailureCode \<noteq> SuccessCode"
  by (simp add: FailureCode_def SuccessCode_def)

lemma Int64ToStr_0: "Int64ToStr 0 = ''0''"
  by code_simp

lemma Int64ToStr_1: "Int64ToStr 1 = ''1''"
  by code_simp

lemma Int64ToStr_2: "Int64ToStr 2 = ''2''"
  by code_simp

subsection \<open>The concrete states\<close>

lemma demo_busy_running_ok: "running_ok demo_busy"
  unfolding demo_busy_def by (rule running_ok_run_calls) (rule running_ok_Init)

lemma demo_busy0_running_ok: "running_ok demo_busy0"
  unfolding demo_busy0_def by (rule running_ok_run_calls) (rule running_ok_Init)

lemma demo_busy_runList: "runList demo_busy = [(''1'', 0)]"
  by code_simp

lemma demo_busy_regList: "regList demo_busy = [(''demoJob'', 0)]"
  by code_simp

lemma demo_busy0_runList: "runList demo_busy0 = [(''0'', 0)]"
  by code_simp

subsection \<open>Admission\<close>

lemma coverOld_found:
  assumes "Get (runList e) (Int64ToStr (JobID p)) = Some old"
    and "Cancel (store e old) = Some c"
  shows "coverOld e p =
      (e\<lparr>runList := Del (runList e) (Int64ToStr (TaskId (store e old)))\<rparr>,
       [Invoke_Cancel c, RunList_Del (Int64ToStr (TaskId (store e old)))])"
  using assms by (simp add: coverOld_def)

lemma replay_coverOld:
  "foldl apply_event (runList e) (snd (coverOld e p)) = runList (fst (coverOld e p))"
  by (simp add: coverOld_def split: option.splits)

lemma replay_admit:
  "foldl apply_event (runList e) (snd (admit e p)) = runList (fst (admit e p))"
  by (simp add: admit_def Let_def split: option.splits)

lemma replay_runTask:
  "foldl apply_event (runList e) (snd (runTask e r)) = runList (fst (runTask e r))"
proof -
  have a: "\<And>e p. foldl apply_event (runList e) (snd (admit e p)) = runList (fst (admit e p))"
    by (rule replay_admit)
  have c: "\<And>p. foldl apply_event (runList e) (snd (coverOld e p)) = runList (fst (coverOld e p))"
    by (rule replay_coverOld)
  show ?thesis
    by (simp add: runTask_def split_beta a c split: unmarshalled.splits)
qed

lemma replay_killTask:
  "foldl apply_event (runList e) (snd (killTask e r)) = runList (fst (killTask e r))"
  by (simp add: killTask_def split: unmarshalled.splits option.splits)

lemma replay_idleBeat:
  "foldl apply_event (runList e) (snd (idleBeat e r)) = runList (fst (idleBeat e r))"
  by (simp add: idleBeat_def split: unmarshalled.splits)

lemma replay_callback:
  "foldl apply_event (runList e) (snd (callback e task code msg net)) =
     runList (fst (callback e task code msg net))"
  by (simp add: callback_def Let_def split: post_result.splits read_result.splits option.splits)

lemma replay_step:
  "foldl apply_event (runList e) (snd (step e c)) = runList (fst (step e c))"
  by (cases c)
    (simp_all add: replay_runTask replay_killTask replay_idleBeat replay_callback RegTask_def Let_def)

lemma replay_run_calls:
  "foldl apply_event (runList e) (snd (run_calls e cs)) = runList (fst (run_calls e cs))"
proof (induction cs arbitrary: e)
  case Nil
  show ?case by simp
next
  case (Cons c cs)
  show ?case
    using Cons.IH [of "fst (step e c)"] replay_step [of e c]
    by (simp add: split_beta)
qed

lemma runTask_coverEarly:
  assumes "unmarshal r = Decoded p"
    and "Get (regList e) (ExecutorHandler p) = Some task"
    and "Get (runList e) (Int64ToStr (JobID p)) = Some old"
    and "Cancel (store e old) = Some c"
    and "ExecutorBlockStrategy p = coverEarly"
  shows "snd (runTask e r) =
      [Log_Info ''task params: %+v'',
       Invoke_Cancel c,
       RunList_Del (Int64ToStr (TaskId (store e old))),
       RunList_Set (Int64ToStr (JobID p)) task,
       Go_Run task,
       Log_Info (''task['' @ Int64ToStr (JobID p) @ ''] start:'' @ ExecutorHandler p),
       Write returnGeneral]"
proof -
  let ?e1 = "e\<lparr>runList := Del (runList e) (Int64ToStr (TaskId (store e old)))\<rparr>"
  have co: "coverOld e p = (?e1, [Invoke_Cancel c, RunList_Del (Int64ToStr (TaskId (store e old)))])"
    using assms(3,4) by (rule coverOld_found)
  have "Get (regList ?e1) (ExecutorHandler p) = Some task"
    using assms(2) by simp
  note adm = admit_registered(6) [OF this]
  have ex: "Exists (regList e) (ExecutorHandler p)" "Exists (runList e) (Int64ToStr (JobID p))"
    using assms(2,3) by (simp_all add: Exists_Get)
  show ?thesis
    using assms(1,5) ex co adm by (simp add: runTask_def split_beta)
qed

text \<open>
  What \<^verbatim>\<open>coverEarly\<close> does when the task found under the job id carries that job id:
  the entry of the job is gone when the new task is stored.
\<close>

lemma runTask_coverEarly_consistent:
  assumes "unmarshal r = Decoded p"
    and "Get (regList e) (ExecutorHandler p) = Some task"
    and "Get (runList e) (Int64ToStr (JobID p)) = Some old"
    and "Cancel (store e old) = Some c"
    and "ExecutorBlockStrategy p = coverEarly"
    and "TaskId (store e old) = JobID p"
  shows "snd (runTask e r) =
      [Log_Info ''task params: %+v'',
       Invoke_Cancel c,
       RunList_Del (Int64ToStr (JobID p)),
       RunList_Set (Int64ToStr (JobID p)) task,
       Go_Run task,
       Log_Info (''task['' @ Int64ToStr (JobID p) @ ''] start:'' @ ExecutorHandler p),
       Write returnGeneral]"
    and "\<not> Exists (runList (fst (coverOld e p))) (Int64ToStr (JobID p))"
  using runTask_coverEarly [OF assms(1-5)] coverOld_found [OF assms(3,4)] assms(6)
  by (simp_all add: Exists_Del_same)

text \<open>What admission stores is the pointer the registry holds.\<close>

lemma runTask_admits_registry_pointer:
  assumes "unmarshal r = Decoded p"
    and "Get (regList e) (ExecutorHandler p) = Some task"
    and "\<not> Exists (runList e) (Int64ToStr (JobID p))"
  shows "Get (runList (fst (runTask e r))) (Int64ToStr (JobID p)) = Some task"
    and "Get (regList (fst (runTask e r))) (ExecutorHandler p) = Some task"
    and "TaskId (store (fst (runTask e r)) task) = JobID p"
    and "Param (store (fst (runTask e r)) task) = Some p"
    and "Cancel (store (fst (runTask e r)) task) = Some (next_ctx e)"
proof -
  have ex: "Exists (regList e) (ExecutorHandler p)"
    using assms(2) by (simp add: Exists_Get)
  have rt: "fst (runTask e r) = fst (admit e p)"
    using assms(1,3) ex by (simp add: runTask_def split_beta)
  show "Get (runList (fst (runTask e r))) (Int64ToStr (JobID p)) = Some task"
    by (simp add: rt admit_registered(1) [OF assms(2)] Get_Set_task)
  show "Get (regList (fst (runTask e r))) (ExecutorHandler p) = Some task"
    by (simp add: rt admit_registered(2) [OF assms(2)] assms(2))
  show "TaskId (store (fst (runTask e r)) task) = JobID p"
    using assms(2) by (simp add: rt admit_def Let_def)
  show "Param (store (fst (runTask e r)) task) = Some p"
    using assms(2) by (simp add: rt admit_def Let_def)
  show "Cancel (store (fst (runTask e r)) task) = Some (next_ctx e)"
    by (simp add: rt admit_registered(4) [OF assms(2)])
qed

lemma runTask_coverEarly_state:
  assumes "unmarshal r = Decoded p"
    and "Get (regList e) (ExecutorHandler p) = Some task"
    and "Get (runList e) (Int64ToStr (JobID p)) = Some old"
    and "Cancel (store e old) = Some c"
    and "ExecutorBlockStrategy p = coverEarly"
  shows "Get (runList (fst (runTask e r))) (Int64ToStr (JobID p)) = Some task"
proof -
  let ?e1 = "e\<lparr>runList := Del (runList e) (Int64ToStr (TaskId (store e old)))\<rparr>"
  have co: "coverOld e p = (?e1, [Invoke_Cancel c, RunList_Del (Int64ToStr (TaskId (store e old)))])"
    using assms(3,4) by (rule coverOld_found)
  have reg: "Get (regList ?e1) (ExecutorHandler p) = Some task"
    using assms(2) by simp
  have ex: "Exists (regList e) (ExecutorHandler p)" "Exists (runList e) (Int64ToStr (JobID p))"
    using assms(2,3) by (simp_all add: Exists_Get)
  have "fst (runTask e r) = fst (admit ?e1 p)"
    using assms(1,5) ex co by (simp add: runTask_def split_beta)
  then show ?thesis
    by (simp add: admit_registered(1) [OF reg] Get_Set_task)
qed

subsection \<open>The callback\<close>

lemma callback_trace_prefix:
  "\<exists>rest. snd (callback e task code msg net) =
      RunList_Del (Int64ToStr (TaskId (store e task))) #
      Post (ServerAddr (opts e) @ ''/api/callback'') (returnCall (Param (store e task)) code msg) #
      rest \<and>
      filter is_runList_call rest = [] \<and> filter is_Post rest = [] \<and>
      filter is_Invoke_Cancel rest = []"
  by (simp add: callback_def Let_def split: post_result.splits read_result.splits option.splits)

lemma callback_post_failed:
  assumes "Param (store e task) = Some p"
  shows "snd (callback e task code msg (PostErr err)) =
      [RunList_Del (Int64ToStr (TaskId (store e task))),
       Post (ServerAddr (opts e) @ ''/api/callback'') (returnCall (Some p) code msg),
       Alert (NotifyWebhook (opts e)) (NotifySecret (opts e))
         (callback_failed_message (store e task) p err) True,
       Log_Error ''callback err : '']"
  using assms by (simp add: callback_def Let_def)

lemma callback_no_panic:
  assumes "Param (store e task) = Some p"
  shows "Panic \<notin> set (snd (callback e task code msg net))"
  using assms
  by (simp add: callback_def Let_def split: post_result.splits read_result.splits)

lemma callback_read_error_no_alert:
  "filter is_Alert (snd (callback e task code msg (PostOk (ReadErr err)))) = []"
  by (simp add: callback_def Let_def)

lemma callback_alert_otherwise:
  assumes "Param (store e task) = Some p"
    and "Contains (ToLower msg) ''fail'' \<or> Contains (ToLower msg) ''error''"
    and "net = PostErr err \<or> net = PostOk (ReadOk b)"
  shows "filter is_Alert (snd (callback e task code msg net)) \<noteq> []"
  using assms by (auto simp: callback_def Let_def)

section \<open>Run requests that are refused\<close>

text \<open>
  C9. A run request whose body fails to decode, or whose handler name is not in the
  registry table, leaves the whole state of the executor as it was, the running table
  included: the handler writes one response, built by \<^verbatim>\<open>returnCall\<close> with the failure
  code, and it invokes no cancel function, calls neither \<^verbatim>\<open>runList.Set\<close> nor
  \<^verbatim>\<open>runList.Del\<close>, starts no goroutine and does not panic.
\<close>

theorem runTask_malformed_or_unregistered:
  assumes "unmarshal r = Failed p \<or>
           (unmarshal r = Decoded p \<and> \<not> Exists (regList e) (ExecutorHandler p))"
  shows "fst (runTask e r) = e \<and>
         (\<exists>msg. filter is_Write (snd (runTask e r)) = [Write (returnCall (Some p) FailureCode msg)]) \<and>
         filter is_Invoke_Cancel (snd (runTask e r)) = [] \<and>
         filter is_runList_call (snd (runTask e r)) = [] \<and>
         filter is_Go_Run (snd (runTask e r)) = [] \<and>
         Panic \<notin> set (snd (runTask e r)) \<and>
         FailureCode \<noteq> SuccessCode"
  using assms by (auto simp: runTask_def codes_differ)

theorem runTask_malformed_or_unregistered_witness:
  "(unmarshal demo_malformed_run = Failed zero_RunReq \<or>
      (unmarshal demo_malformed_run = Decoded zero_RunReq \<and>
       \<not> Exists (regList demo_busy) (ExecutorHandler zero_RunReq))) \<and>
   (unmarshal (demo_run 2 ''other'' []) = Failed (\<lparr>JobID = 2, ExecutorHandler = ''other'',
        ExecutorParams = [], ExecutorBlockStrategy = [], ExecutorTimeout = 0\<rparr>) \<or>
      (unmarshal (demo_run 2 ''other'' []) = Decoded (\<lparr>JobID = 2, ExecutorHandler = ''other'',
        ExecutorParams = [], ExecutorBlockStrategy = [], ExecutorTimeout = 0\<rparr>) \<and>
       \<not> Exists (regList demo_busy) (ExecutorHandler (\<lparr>JobID = 2, ExecutorHandler = ''other'',
        ExecutorParams = [], ExecutorBlockStrategy = [], ExecutorTimeout = 0\<rparr>)))) \<and>
   fst (runTask demo_busy demo_malformed_run) = demo_busy \<and>
   fst (runTask demo_busy (demo_run 2 ''other'' [])) = demo_busy"
proof -
  have h1: "unmarshal demo_malformed_run = Failed zero_RunReq \<or>
      (unmarshal demo_malformed_run = Decoded zero_RunReq \<and>
       \<not> Exists (regList demo_busy) (ExecutorHandler zero_RunReq))"
    by (simp add: demo_malformed_run_def)
  have h2: "unmarshal (demo_run 2 ''other'' []) = Failed (\<lparr>JobID = 2, ExecutorHandler = ''other'',
        ExecutorParams = [], ExecutorBlockStrategy = [], ExecutorTimeout = 0\<rparr>) \<or>
      (unmarshal (demo_run 2 ''other'' []) = Decoded (\<lparr>JobID = 2, ExecutorHandler = ''other'',
        ExecutorParams = [], ExecutorBlockStrategy = [], ExecutorTimeout = 0\<rparr>) \<and>
       \<not> Exists (regList demo_busy) (ExecutorHandler (\<lparr>JobID = 2, ExecutorHandler = ''other'',
        ExecutorParams = [], ExecutorBlockStrategy = [], ExecutorTimeout = 0\<rparr>)))"
    by (simp add: demo_run_def demo_busy_regList Exists_def)
  show ?thesis
    using h1 h2 runTask_malformed_or_unregistered [OF h1] runTask_malformed_or_unregistered [OF h2]
    by blast
qed

text \<open>
  C4. A decoded run request for a job id that is in the running table, with a blocking
  strategy other than \<^verbatim>\<open>coverEarly\<close>, leaves the whole state as it was: no cancel
  function is invoked, the running table is not written and no goroutine is started.
  One response is written, with the failure code; when the handler is registered, so
  that the request reaches the strategy check, it is the conflict response
  "There are tasks running".
\<close>

theorem runTask_conflict_rejected:
  assumes "unmarshal r = Decoded p"
    and "Exists (runList e) (Int64ToStr (JobID p))"
    and "ExecutorBlockStrategy p \<noteq> coverEarly"
  shows "fst (runTask e r) = e \<and>
         (\<exists>msg. filter is_Write (snd (runTask e r)) = [Write (returnCall (Some p) FailureCode msg)]) \<and>
         (Exists (regList e) (ExecutorHandler p) \<longrightarrow>
            filter is_Write (snd (runTask e r)) =
              [Write (returnCall (Some p) FailureCode ''There are tasks running'')]) \<and>
         filter is_Invoke_Cancel (snd (runTask e r)) = [] \<and>
         filter is_runList_call (snd (runTask e r)) = [] \<and>
         filter is_Go_Run (snd (runTask e r)) = [] \<and>
         Panic \<notin> set (snd (runTask e r)) \<and>
         FailureCode \<noteq> SuccessCode"
  using assms by (auto simp: runTask_def codes_differ)

theorem runTask_conflict_rejected_witness:
  "unmarshal (demo_run 1 ''demoJob'' ''SERIAL_EXECUTION'') = Decoded \<lparr>JobID = 1,
      ExecutorHandler = ''demoJob'', ExecutorParams = [],
      ExecutorBlockStrategy = ''SERIAL_EXECUTION'', ExecutorTimeout = 0\<rparr> \<and>
   Exists (runList demo_busy) (Int64ToStr 1) \<and>
   ''SERIAL_EXECUTION'' \<noteq> coverEarly \<and>
   Exists (regList demo_busy) ''demoJob'' \<and>
   fst (runTask demo_busy (demo_run 1 ''demoJob'' ''SERIAL_EXECUTION'')) = demo_busy \<and>
   filter is_Write (snd (runTask demo_busy (demo_run 1 ''demoJob'' ''SERIAL_EXECUTION''))) =
     [Write (returnCall (Some \<lparr>JobID = 1,
      ExecutorHandler = ''demoJob'', ExecutorParams = [],
      ExecutorBlockStrategy = ''SERIAL_EXECUTION'', ExecutorTimeout = 0\<rparr>) FailureCode ''There are tasks running'')]"
proof -
  let ?p = "\<lparr>JobID = 1, ExecutorHandler = ''demoJob'', ExecutorParams = [],
      ExecutorBlockStrategy = ''SERIAL_EXECUTION'', ExecutorTimeout = 0\<rparr>"
  have h1: "unmarshal (demo_run 1 ''demoJob'' ''SERIAL_EXECUTION'') = Decoded ?p"
    by (simp add: demo_run_def)
  have h2: "Exists (runList demo_busy) (Int64ToStr (JobID ?p))"
    by (simp add: demo_busy_runList Int64ToStr_1 Exists_def)
  have h3: "ExecutorBlockStrategy ?p \<noteq> coverEarly"
    by (simp add: coverEarly_def)
  have h4: "Exists (regList demo_busy) (ExecutorHandler ?p)"
    by (simp add: demo_busy_regList Exists_def)
  show ?thesis
    using h1 h2 h3 h4 runTask_conflict_rejected [OF h1 h2 h3] by simp
qed

section \<open>One entry for each job id\<close>

text \<open>
  C1. Take any sequence of calls made on the executor after \<^verbatim>\<open>Init\<close>: registrations, run,
  kill and busy-check requests and callbacks, each handler running as one step. At
  every instant of that history, that is before and after each call of \<^verbatim>\<open>runList.Set\<close>
  and \<^verbatim>\<open>runList.Del\<close>, the running table holds at most one entry for each job id, and the
  table the executor ends with is the last of these instants. In the state reached, a
  decoded run request for a registered handler and a job id that is in the running
  table is decided by the blocking strategy before the running table is written:
  under a strategy other than \<^verbatim>\<open>coverEarly\<close> the state is unchanged, nothing is cancelled
  and the conflict response is written; under \<^verbatim>\<open>coverEarly\<close> all that happens before the
  first write to the running table is the log line and the invocation of the cancel
  function of the task stored under the job id, and afterwards the job id holds the
  task of the handler and the success response is written.
\<close>

theorem running_table_one_entry_per_job_id:
  assumes "e = fst (run_calls (Init os) cs)"
  shows "(\<forall>t \<in> set (instants [] (snd (run_calls (Init os) cs))).
            \<forall>j. length (entries t (Int64ToStr j)) \<le> 1) \<and>
         runList e = last (instants [] (snd (run_calls (Init os) cs))) \<and>
         (\<forall>r p. unmarshal r = Decoded p \<and> Exists (regList e) (ExecutorHandler p) \<and>
                Exists (runList e) (Int64ToStr (JobID p)) \<longrightarrow>
            (ExecutorBlockStrategy p \<noteq> coverEarly \<longrightarrow>
               fst (runTask e r) = e \<and>
               filter is_runList_call (snd (runTask e r)) = [] \<and>
               filter is_Invoke_Cancel (snd (runTask e r)) = [] \<and>
               filter is_Write (snd (runTask e r)) =
                 [Write (returnCall (Some p) FailureCode ''There are tasks running'')]) \<and>
            (ExecutorBlockStrategy p = coverEarly \<longrightarrow>
               (\<exists>old c. Get (runList e) (Int64ToStr (JobID p)) = Some old \<and>
                  Cancel (store e old) = Some c \<and>
                  takeWhile (\<lambda>ev. \<not> is_runList_call ev) (snd (runTask e r)) =
                    [Log_Info ''task params: %+v'', Invoke_Cancel c]) \<and>
               (\<exists>task. Get (regList e) (ExecutorHandler p) = Some task \<and>
                  Get (runList (fst (runTask e r))) (Int64ToStr (JobID p)) = Some task) \<and>
               filter is_Write (snd (runTask e r)) = [Write returnGeneral]))"
proof -
  let ?tr = "snd (run_calls (Init os) cs)"
  have one: "\<forall>t \<in> set (instants [] ?tr). \<forall>j. length (entries t (Int64ToStr j)) \<le> 1"
  proof (intro ballI allI)
    fix t j
    assume "t \<in> set (instants [] ?tr)"
    then have "distinct (map fst t)"
      using distinct_instants [of "[]" t ?tr] by simp
    then show "length (entries t (Int64ToStr j)) \<le> 1"
      by (rule entries_le_one)
  qed
  have "runList (Init os) = []"
    by (simp add: Init_def)
  then have final: "runList e = last (instants [] ?tr)"
    using replay_run_calls [of "Init os" cs] assms by (simp add: last_instants)
  have ok: "running_ok e"
    unfolding assms by (rule running_ok_run_calls) (rule running_ok_Init)
  have decide: "(ExecutorBlockStrategy p \<noteq> coverEarly \<longrightarrow>
        fst (runTask e r) = e \<and>
        filter is_runList_call (snd (runTask e r)) = [] \<and>
        filter is_Invoke_Cancel (snd (runTask e r)) = [] \<and>
        filter is_Write (snd (runTask e r)) =
          [Write (returnCall (Some p) FailureCode ''There are tasks running'')]) \<and>
      (ExecutorBlockStrategy p = coverEarly \<longrightarrow>
        (\<exists>old c. Get (runList e) (Int64ToStr (JobID p)) = Some old \<and>
           Cancel (store e old) = Some c \<and>
           takeWhile (\<lambda>ev. \<not> is_runList_call ev) (snd (runTask e r)) =
             [Log_Info ''task params: %+v'', Invoke_Cancel c]) \<and>
        (\<exists>task. Get (regList e) (ExecutorHandler p) = Some task \<and>
           Get (runList (fst (runTask e r))) (Int64ToStr (JobID p)) = Some task) \<and>
        filter is_Write (snd (runTask e r)) = [Write returnGeneral])"
    if dec: "unmarshal r = Decoded p" and reg: "Exists (regList e) (ExecutorHandler p)"
      and run: "Exists (runList e) (Int64ToStr (JobID p))" for r p
  proof (cases "ExecutorBlockStrategy p = coverEarly")
    case False
    then show ?thesis
      using dec reg run by (simp add: runTask_def)
  next
    case True
    from reg obtain task where t: "Get (regList e) (ExecutorHandler p) = Some task"
      by (auto simp: Exists_Get)
    from run obtain old where o: "Get (runList e) (Int64ToStr (JobID p)) = Some old"
      by (auto simp: Exists_Get)
    from running_ok_Cancel [OF ok o] obtain c where c: "Cancel (store e old) = Some c" ..
    note tr = runTask_coverEarly [OF dec t o c True]
    note st = runTask_coverEarly_state [OF dec t o c True]
    show ?thesis
      using True t o c st by (simp add: tr)
  qed
  show ?thesis
    using one final decide by blast
qed

theorem running_table_one_entry_per_job_id_witness:
  "demo_busy = fst (run_calls (Init demo_opts)
      [Call_RegTask ''demoJob'' 0, Call_runTask (demo_run 1 ''demoJob'' [])]) \<and>
   [(''1'', 0)] \<in> set (instants [] (snd (run_calls (Init demo_opts)
      [Call_RegTask ''demoJob'' 0, Call_runTask (demo_run 1 ''demoJob'' [])]))) \<and>
   length (entries [(''1'', 0)] (Int64ToStr 1)) \<le> 1 \<and>
   unmarshal (demo_run 1 ''demoJob'' coverEarly) = Decoded \<lparr>JobID = 1, ExecutorHandler = ''demoJob'',
      ExecutorParams = [], ExecutorBlockStrategy = coverEarly, ExecutorTimeout = 0\<rparr> \<and>
   Exists (regList demo_busy) ''demoJob'' \<and> Exists (runList demo_busy) (Int64ToStr 1) \<and>
   takeWhile (\<lambda>ev. \<not> is_runList_call ev) (snd (runTask demo_busy (demo_run 1 ''demoJob'' coverEarly))) =
     [Log_Info ''task params: %+v'', Invoke_Cancel 0] \<and>
   unmarshal (demo_run 1 ''demoJob'' []) = Decoded \<lparr>JobID = 1, ExecutorHandler = ''demoJob'',
      ExecutorParams = [], ExecutorBlockStrategy = [], ExecutorTimeout = 0\<rparr> \<and>
   [] \<noteq> coverEarly \<and>
   fst (runTask demo_busy (demo_run 1 ''demoJob'' [])) = demo_busy"
proof -
  let ?cs = "[Call_RegTask ''demoJob'' 0, Call_runTask (demo_run 1 ''demoJob'' [])]"
  let ?p = "\<lparr>JobID = 1, ExecutorHandler = ''demoJob'',
      ExecutorParams = [], ExecutorBlockStrategy = coverEarly, ExecutorTimeout = 0\<rparr>"
  let ?q = "\<lparr>JobID = 1, ExecutorHandler = ''demoJob'',
      ExecutorParams = [], ExecutorBlockStrategy = [], ExecutorTimeout = 0\<rparr>"
  have h: "demo_busy = fst (run_calls (Init demo_opts) ?cs)"
    by (simp only: demo_busy_def)
  have inst: "[(''1'', 0)] \<in> set (instants [] (snd (run_calls (Init demo_opts) ?cs)))"
    by code_simp
  have d1: "unmarshal (demo_run 1 ''demoJob'' coverEarly) = Decoded ?p"
    by (simp add: demo_run_def)
  have d2: "unmarshal (demo_run 1 ''demoJob'' []) = Decoded ?q"
    by (simp add: demo_run_def)
  have reg: "Exists (regList demo_busy) ''demoJob''"
    by (simp add: demo_busy_regList Exists_def)
  have run: "Exists (runList demo_busy) (Int64ToStr 1)"
    by (simp add: demo_busy_runList Int64ToStr_1 Exists_def)
  have g: "Get (runList demo_busy) (Int64ToStr 1) = Some 0"
    by (simp add: demo_busy_runList Int64ToStr_1 Get_def)
  have c: "Cancel (store demo_busy 0) = Some 0"
    by code_simp
  have ne: "[] \<noteq> coverEarly"
    by (simp add: coverEarly_def)
  note inst_thm = running_table_one_entry_per_job_id [OF h]
  have one: "length (entries [(''1'', 0)] (Int64ToStr 1)) \<le> 1"
    using inst_thm [THEN conjunct1] inst by blast
  note dec = inst_thm [THEN conjunct2, THEN conjunct2, rule_format]
  have p1: "unmarshal (demo_run 1 ''demoJob'' coverEarly) = Decoded ?p \<and>
      Exists (regList demo_busy) (ExecutorHandler ?p) \<and>
      Exists (runList demo_busy) (Int64ToStr (JobID ?p))"
    using d1 reg run by simp
  have p2: "unmarshal (demo_run 1 ''demoJob'' []) = Decoded ?q \<and>
      Exists (regList demo_busy) (ExecutorHandler ?q) \<and>
      Exists (runList demo_busy) (Int64ToStr (JobID ?q))"
    using d2 reg run by simp
  have cover: "takeWhile (\<lambda>ev. \<not> is_runList_call ev)
      (snd (runTask demo_busy (demo_run 1 ''demoJob'' coverEarly))) =
      [Log_Info ''task params: %+v'', Invoke_Cancel 0]"
    using dec [OF p1, THEN conjunct2] g c by simp
  have reject: "fst (runTask demo_busy (demo_run 1 ''demoJob'' [])) = demo_busy"
    using dec [OF p2, THEN conjunct1] ne by simp
  show ?thesis
    using h inst one d1 d2 reg run cover ne reject by blast
qed

section \<open>Where the admitted task is the registered task\<close>

text \<open>
  C2, where the code departs from the claim. One handler is registered and job 1 and
  job 2 are admitted on it. \<^verbatim>\<open>runTask\<close> takes the pointer the registry holds, writes the
  fields through it and stores that same pointer: the entries of job 1 and of job 2
  and the entry of the registry are one Task object. After the first admission it
  carries job id 1, the parameters of job 1 and cancel function 0; after the second it
  carries job id 2, the parameters of job 2 and cancel function 1, under the key of
  job 1 as well.
\<close>

theorem admitted_tasks_share_the_registered_task:
  "Get (regList demo_shared) ''demoJob'' = Some 0 \<and>
   Get (runList demo_shared) ''1'' = Some 0 \<and>
   Get (runList demo_shared) ''2'' = Some 0 \<and>
   TaskId (store demo_busy 0) = 1 \<and>
   Cancel (store demo_busy 0) = Some 0 \<and>
   Param (store demo_busy 0) = Some \<lparr>JobID = 1, ExecutorHandler = ''demoJob'',
      ExecutorParams = [], ExecutorBlockStrategy = [], ExecutorTimeout = 0\<rparr> \<and>
   TaskId (store demo_shared 0) = 2 \<and>
   Cancel (store demo_shared 0) = Some 1 \<and>
   Param (store demo_shared 0) = Some \<lparr>JobID = 2, ExecutorHandler = ''demoJob'',
      ExecutorParams = [], ExecutorBlockStrategy = [], ExecutorTimeout = 0\<rparr>"
  by code_simp

text \<open>
  C3, where the code departs from the claim. In the state of C2 a run request for job 1
  arrives with the strategy \<^verbatim>\<open>coverEarly\<close>. The task found under \<open>''1''\<close> carries job id 2
  and cancel function 1, so the handler invokes cancel function 1 and deletes the key
  \<open>''2''\<close>. Cancel function 0, made when job 1 was admitted, is not invoked, and the key
  \<open>''1''\<close> is still in the running table when the new task is stored under it. The
  request returns success; the entry of job 2 is gone.
\<close>

theorem coverEarly_removes_another_job:
  "Exists (runList demo_shared) (Int64ToStr 1) \<and>
   snd (runTask demo_shared (demo_run 1 ''demoJob'' coverEarly)) =
     [Log_Info ''task params: %+v'', Invoke_Cancel 1, RunList_Del ''2'', RunList_Set ''1'' 0,
      Go_Run 0, Log_Info ''task[1] start:demoJob'', Write returnGeneral] \<and>
   Invoke_Cancel 0 \<notin> set (snd (runTask demo_shared (demo_run 1 ''demoJob'' coverEarly))) \<and>
   RunList_Del ''1'' \<notin> set (snd (runTask demo_shared (demo_run 1 ''demoJob'' coverEarly))) \<and>
   Exists (runList (fst (coverOld demo_shared \<lparr>JobID = 1, ExecutorHandler = ''demoJob'',
      ExecutorParams = [], ExecutorBlockStrategy = coverEarly, ExecutorTimeout = 0\<rparr>))) ''1'' \<and>
   runList (fst (runTask demo_shared (demo_run 1 ''demoJob'' coverEarly))) = [(''1'', 0)]"
  by code_simp

section \<open>Kill requests\<close>

text \<open>
  What \<^verbatim>\<open>killTask\<close> does with the task object it finds, for a request that carries a job
  id (the decoder left a request value). When the job id is not in the running table,
  the state is unchanged and the one response written is \<^verbatim>\<open>returnKill\<close> with the failure
  code. When it is in the running table, of a state that satisfies the invariant, the
  handler invokes the cancel function that the object stored under the id holds at
  that moment, then calls \<^verbatim>\<open>runList.Del\<close> on the id, once, then writes the success
  response; afterwards the id is absent and every other key holds what it held.
\<close>

lemma killTask_on_stored_task:
  assumes "unmarshal r = Decoded p \<or> unmarshal r = Failed p"
  shows "(\<not> Exists (runList e) (Int64ToStr (kill_JobID p)) \<longrightarrow>
            fst (killTask e r) = e \<and>
            filter is_Write (snd (killTask e r)) = [Write (returnKill p FailureCode)] \<and>
            filter is_Invoke_Cancel (snd (killTask e r)) = [] \<and>
            filter is_runList_call (snd (killTask e r)) = []) \<and>
         (Exists (runList e) (Int64ToStr (kill_JobID p)) \<and> running_ok e \<longrightarrow>
            (\<exists>task c. Get (runList e) (Int64ToStr (kill_JobID p)) = Some task \<and>
               Cancel (store e task) = Some c \<and>
               snd (killTask e r) =
                 [Invoke_Cancel c, RunList_Del (Int64ToStr (kill_JobID p)), Write returnGeneral]) \<and>
            fst (killTask e r) = e\<lparr>runList := Del (runList e) (Int64ToStr (kill_JobID p))\<rparr> \<and>
            \<not> Exists (runList (fst (killTask e r))) (Int64ToStr (kill_JobID p)) \<and>
            (\<forall>k. k \<noteq> Int64ToStr (kill_JobID p) \<longrightarrow>
               Get (runList (fst (killTask e r))) k = Get (runList e) k)) \<and>
         code_of (returnKill p FailureCode) = FailureCode \<and>
         code_of returnGeneral = SuccessCode \<and>
         FailureCode \<noteq> SuccessCode"
proof -
  let ?key = "Int64ToStr (kill_JobID p)"
  have absent: "fst (killTask e r) = e \<and>
      filter is_Write (snd (killTask e r)) = [Write (returnKill p FailureCode)] \<and>
      filter is_Invoke_Cancel (snd (killTask e r)) = [] \<and>
      filter is_runList_call (snd (killTask e r)) = []"
    if "\<not> Exists (runList e) ?key"
    using killTask_absent [OF assms that] by simp
  have present: "(\<exists>task c. Get (runList e) ?key = Some task \<and> Cancel (store e task) = Some c \<and>
        snd (killTask e r) = [Invoke_Cancel c, RunList_Del ?key, Write returnGeneral]) \<and>
      fst (killTask e r) = e\<lparr>runList := Del (runList e) ?key\<rparr> \<and>
      \<not> Exists (runList (fst (killTask e r))) ?key \<and>
      (\<forall>k. k \<noteq> ?key \<longrightarrow> Get (runList (fst (killTask e r))) k = Get (runList e) k)"
    if ex: "Exists (runList e) ?key" and ok: "running_ok e"
  proof -
    from ex obtain task where g: "Get (runList e) ?key = Some task"
      by (auto simp: Exists_Get)
    from running_ok_Cancel [OF ok g] obtain c where c: "Cancel (store e task) = Some c" ..
    note k = killTask_present [OF assms g c]
    show ?thesis
      using g c k by (simp add: Exists_Del_same Get_Del_other)
  qed
  have codes: "code_of (returnKill p FailureCode) = FailureCode \<and>
      code_of returnGeneral = SuccessCode \<and> FailureCode \<noteq> SuccessCode"
    by (simp add: codes_differ)
  show ?thesis
    using absent present codes by blast
qed

lemma killTask_on_stored_task_demo:
  "(unmarshal (demo_kill 1) = Decoded \<lparr>kill_JobID = 1\<rparr> \<or>
      unmarshal (demo_kill 1) = Failed \<lparr>kill_JobID = 1\<rparr>) \<and>
   Exists (runList demo_busy) (Int64ToStr 1) \<and> running_ok demo_busy \<and>
   \<not> Exists (runList (Init demo_opts)) (Int64ToStr 1) \<and>
   snd (killTask demo_busy (demo_kill 1)) = [Invoke_Cancel 0, RunList_Del ''1'', Write returnGeneral] \<and>
   \<not> Exists (runList (fst (killTask demo_busy (demo_kill 1)))) ''1'' \<and>
   fst (killTask (Init demo_opts) (demo_kill 1)) = Init demo_opts \<and>
   filter is_Write (snd (killTask (Init demo_opts) (demo_kill 1))) =
     [Write (returnKill \<lparr>kill_JobID = 1\<rparr> FailureCode)]"
proof -
  have h: "unmarshal (demo_kill 1) = Decoded \<lparr>kill_JobID = 1\<rparr> \<or>
      unmarshal (demo_kill 1) = Failed \<lparr>kill_JobID = 1\<rparr>"
    by (simp add: demo_kill_def)
  have ex: "Exists (runList demo_busy) (Int64ToStr 1)"
    by (simp add: demo_busy_runList Int64ToStr_1 Exists_def)
  have nex: "\<not> Exists (runList (Init demo_opts)) (Int64ToStr 1)"
    by (simp add: Init_def Exists_def)
  have g: "Get (runList demo_busy) ''1'' = Some 0"
    by (simp add: demo_busy_runList Get_def)
  have c: "Cancel (store demo_busy 0) = Some 0"
    by code_simp
  show ?thesis
    using h ex nex g c demo_busy_running_ok
      killTask_on_stored_task [OF h, of demo_busy]
      killTask_on_stored_task [OF h, of "Init demo_opts"]
    by (auto simp: Int64ToStr_1)
qed

text \<open>
  C5. The code departs from the property when two jobs run on one handler. In the
  state of C2 a kill request for job 1 arrives. Job 1 was admitted with the context
  \<open>demoJob:1\<close> and cancel function 0. The object stored under \<open>''1''\<close> is the shared Task,
  which by now holds the context \<open>demoJob:2\<close> and cancel function 1, made for job 2. The
  handler invokes cancel function 1, deletes the key \<open>''1''\<close> and answers success: the
  cancel function of job 1 is never invoked, and job 2, whose context is cancelled,
  keeps its entry. A kill request for an absent job id is answered as the property
  says.
\<close>

theorem killTask_cancels_another_job:
  "Cancel (store demo_busy 0) = Some 0 \<and>
   Ext (store demo_busy 0) = Some \<lparr>ctx_id = 0, trace_id = ''demoJob:1'', timeout = None\<rparr> \<and>
   Cancel (store demo_shared 0) = Some 1 \<and>
   Ext (store demo_shared 0) = Some \<lparr>ctx_id = 1, trace_id = ''demoJob:2'', timeout = None\<rparr> \<and>
   Get (runList demo_shared) (Int64ToStr 1) = Some 0 \<and>
   snd (killTask demo_shared (demo_kill 1)) =
     [Invoke_Cancel 1, RunList_Del ''1'', Write returnGeneral] \<and>
   Invoke_Cancel 0 \<notin> set (snd (killTask demo_shared (demo_kill 1))) \<and>
   runList (fst (killTask demo_shared (demo_kill 1))) = [(''2'', 0)]"
  by code_simp

text \<open>
  C10. \<^verbatim>\<open>killTask\<close> drops the error of the decoder. A body that is not valid JSON leaves
  the request value at its zero value, so the request is handled exactly as a kill of
  job id 0: when \<open>''0''\<close> is not in the running table the response is \<^verbatim>\<open>returnKill\<close> with
  the failure code and the state is unchanged; when \<open>''0''\<close> is in the running table, the
  task stored there is cancelled and the entry is deleted.
\<close>

theorem killTask_malformed_body_kills_job_0:
  assumes "unmarshal r = Failed zero_killReq"
  shows "killTask e r = killTask e (r\<lparr>unmarshal := Decoded \<lparr>kill_JobID = 0\<rparr>\<rparr>) \<and>
         (\<not> Exists (runList e) ''0'' \<longrightarrow>
            killTask e r = (e, [Write (returnKill zero_killReq FailureCode),
                                Log_Error ''task not running:0''])) \<and>
         (Exists (runList e) ''0'' \<and> running_ok e \<longrightarrow>
            (\<exists>task c. Get (runList e) ''0'' = Some task \<and> Cancel (store e task) = Some c \<and>
               killTask e r = (e\<lparr>runList := Del (runList e) ''0''\<rparr>,
                 [Invoke_Cancel c, RunList_Del ''0'', Write returnGeneral])) \<and>
            \<not> Exists (runList (fst (killTask e r))) ''0'') \<and>
         code_of (returnKill zero_killReq FailureCode) = FailureCode \<and>
         FailureCode \<noteq> SuccessCode"
proof -
  have p: "unmarshal r = Decoded zero_killReq \<or> unmarshal r = Failed zero_killReq"
    using assms by simp
  have key: "Int64ToStr (kill_JobID zero_killReq) = ''0''"
    by (simp add: zero_killReq_def Int64ToStr_0)
  have same: "killTask e r = killTask e (r\<lparr>unmarshal := Decoded \<lparr>kill_JobID = 0\<rparr>\<rparr>)"
    using assms by (simp add: killTask_def zero_killReq_def)
  have absent: "killTask e r = (e, [Write (returnKill zero_killReq FailureCode),
      Log_Error ''task not running:0''])"
    if "\<not> Exists (runList e) ''0''"
    using killTask_absent [OF p] that by (simp add: key)
  have present: "(\<exists>task c. Get (runList e) ''0'' = Some task \<and> Cancel (store e task) = Some c \<and>
        killTask e r = (e\<lparr>runList := Del (runList e) ''0''\<rparr>,
          [Invoke_Cancel c, RunList_Del ''0'', Write returnGeneral])) \<and>
      \<not> Exists (runList (fst (killTask e r))) ''0''"
    if ex: "Exists (runList e) ''0''" and ok: "running_ok e"
  proof -
    from ex obtain task where g: "Get (runList e) ''0'' = Some task"
      by (auto simp: Exists_Get)
    from running_ok_Cancel [OF ok g] obtain c where c: "Cancel (store e task) = Some c" ..
    have k: "killTask e r = (e\<lparr>runList := Del (runList e) ''0''\<rparr>,
        [Invoke_Cancel c, RunList_Del ''0'', Write returnGeneral])"
      using killTask_present [OF p, of e task c] g c by (simp add: key)
    show ?thesis
      using g c k by (simp add: Exists_Del_same)
  qed
  have codes: "code_of (returnKill zero_killReq FailureCode) = FailureCode \<and>
      FailureCode \<noteq> SuccessCode"
    by (simp add: codes_differ)
  show ?thesis
    using same absent present codes by blast
qed

theorem killTask_malformed_body_kills_job_0_witness:
  "unmarshal demo_malformed_kill = Failed zero_killReq \<and>
   Exists (runList demo_busy0) ''0'' \<and> running_ok demo_busy0 \<and>
   \<not> Exists (runList demo_busy) ''0'' \<and>
   killTask demo_busy0 demo_malformed_kill =
     (demo_busy0\<lparr>runList := Del (runList demo_busy0) ''0''\<rparr>,
      [Invoke_Cancel 0, RunList_Del ''0'', Write returnGeneral]) \<and>
   killTask demo_busy demo_malformed_kill =
     (demo_busy, [Write (returnKill zero_killReq FailureCode), Log_Error ''task not running:0''])"
proof -
  have h: "unmarshal demo_malformed_kill = Failed zero_killReq"
    by (simp add: demo_malformed_kill_def)
  have ex: "Exists (runList demo_busy0) ''0''"
    by (simp add: demo_busy0_runList Exists_def)
  have nex: "\<not> Exists (runList demo_busy) ''0''"
    by (simp add: demo_busy_runList Exists_def)
  have g: "Get (runList demo_busy0) ''0'' = Some 0"
    by (simp add: demo_busy0_runList Get_def)
  have c: "Cancel (store demo_busy0 0) = Some 0"
    by code_simp
  show ?thesis
    using h ex nex g c demo_busy0_running_ok
      killTask_malformed_body_kills_job_0 [OF h, of demo_busy0]
      killTask_malformed_body_kills_job_0 [OF h, of demo_busy]
    by auto
qed

section \<open>The busy check\<close>

text \<open>
  C6. \<^verbatim>\<open>idleBeat\<close> returns the state it was given, whatever the request. For a decoded
  request it writes one response, and that response carries the failure code exactly
  when the job id is in the running table, and the success code exactly when it is
  not.
\<close>

theorem idleBeat_failure_iff_running:
  assumes "unmarshal r = Decoded p"
  shows "fst (idleBeat e r') = e \<and>
         (\<exists>resp. filter is_Write (snd (idleBeat e r)) = [Write resp] \<and>
            (code_of resp = FailureCode \<longleftrightarrow> Exists (runList e) (Int64ToStr (idle_JobID p))) \<and>
            (code_of resp = SuccessCode \<longleftrightarrow> \<not> Exists (runList e) (Int64ToStr (idle_JobID p)))) \<and>
         filter is_runList_call (snd (idleBeat e r)) = [] \<and>
         filter is_Invoke_Cancel (snd (idleBeat e r)) = []"
proof -
  have unchanged: "fst (idleBeat e r') = e"
    by (rule fst_idleBeat)
  have resp: "\<exists>resp. filter is_Write (snd (idleBeat e r)) = [Write resp] \<and>
      (code_of resp = FailureCode \<longleftrightarrow> Exists (runList e) (Int64ToStr (idle_JobID p))) \<and>
      (code_of resp = SuccessCode \<longleftrightarrow> \<not> Exists (runList e) (Int64ToStr (idle_JobID p)))"
    using assms codes_differ by (auto simp: idleBeat_def)
  have quiet: "filter is_runList_call (snd (idleBeat e r)) = [] \<and>
      filter is_Invoke_Cancel (snd (idleBeat e r)) = []"
    using assms by (simp add: idleBeat_def)
  show ?thesis
    using unchanged resp quiet by blast
qed

theorem idleBeat_failure_iff_running_witness:
  "unmarshal (demo_idleBeat 1) = Decoded \<lparr>idle_JobID = 1\<rparr> \<and>
   unmarshal (demo_idleBeat 2) = Decoded \<lparr>idle_JobID = 2\<rparr> \<and>
   fst (idleBeat demo_busy (demo_idleBeat 1)) = demo_busy \<and>
   (\<exists>resp. filter is_Write (snd (idleBeat demo_busy (demo_idleBeat 1))) = [Write resp] \<and>
      code_of resp = FailureCode) \<and>
   (\<exists>resp. filter is_Write (snd (idleBeat demo_busy (demo_idleBeat 2))) = [Write resp] \<and>
      code_of resp = SuccessCode)"
proof -
  have h1: "unmarshal (demo_idleBeat 1) = Decoded \<lparr>idle_JobID = 1\<rparr>"
    by (simp add: demo_idleBeat_def)
  have h2: "unmarshal (demo_idleBeat 2) = Decoded \<lparr>idle_JobID = 2\<rparr>"
    by (simp add: demo_idleBeat_def)
  have ex: "Exists (runList demo_busy) (Int64ToStr 1)"
    by (simp add: demo_busy_runList Int64ToStr_1 Exists_def)
  have nex: "\<not> Exists (runList demo_busy) (Int64ToStr 2)"
    by (simp add: demo_busy_runList Int64ToStr_2 Exists_def)
  show ?thesis
    using h1 h2 ex nex
      idleBeat_failure_iff_running [OF h1, of demo_busy "demo_idleBeat 1"]
      idleBeat_failure_iff_running [OF h2, of demo_busy "demo_idleBeat 2"]
    by auto
qed

section \<open>The callback path\<close>

text \<open>
  What \<^verbatim>\<open>callback\<close> does with the task object it is given, when the parameters of the
  object are set. It first calls \<^verbatim>\<open>runList.Del\<close> on the key made from the \<^verbatim>\<open>Id\<close> the object
  holds at that moment and then posts the callback record, whatever the network does
  afterwards: the state returned is the state given with that key deleted from the
  running table. Nothing after the post touches the running table or posts again, and
  the function does not panic. When the post fails, the rest of the trace is one
  alert, with the flag set, and one error log line.
\<close>

lemma callback_deletes_key_of_Id:
  assumes "Param (store e task) = Some p"
  shows "fst (callback e task code msg net) =
           e\<lparr>runList := Del (runList e) (Int64ToStr (TaskId (store e task)))\<rparr> \<and>
         \<not> Exists (runList (fst (callback e task code msg net))) (Int64ToStr (TaskId (store e task))) \<and>
         (\<exists>rest. snd (callback e task code msg net) =
            RunList_Del (Int64ToStr (TaskId (store e task))) #
            Post (ServerAddr (opts e) @ ''/api/callback'') (returnCall (Some p) code msg) # rest \<and>
            filter is_runList_call rest = [] \<and> filter is_Post rest = [] \<and>
            Panic \<notin> set rest \<and>
            (\<forall>err. net = PostErr err \<longrightarrow>
               rest = [Alert (NotifyWebhook (opts e)) (NotifySecret (opts e))
                         (callback_failed_message (store e task) p err) True,
                       Log_Error ''callback err : '']))"
proof -
  let ?key = "Int64ToStr (TaskId (store e task))"
  have st: "fst (callback e task code msg net) = e\<lparr>runList := Del (runList e) ?key\<rparr>"
    by (rule fst_callback)
  have gone: "\<not> Exists (runList (fst (callback e task code msg net))) ?key"
    by (simp add: st Exists_Del_same)
  from callback_trace_prefix [of e task code msg net] obtain rest where
    tr: "snd (callback e task code msg net) =
      RunList_Del ?key #
      Post (ServerAddr (opts e) @ ''/api/callback'') (returnCall (Some p) code msg) # rest"
    and quiet: "filter is_runList_call rest = []" "filter is_Post rest = []"
    using assms by auto
  have np: "Panic \<notin> set rest"
    using callback_no_panic [OF assms, of code msg net] tr by simp
  have failed: "rest = [Alert (NotifyWebhook (opts e)) (NotifySecret (opts e))
        (callback_failed_message (store e task) p err) True, Log_Error ''callback err : '']"
    if "net = PostErr err" for err
    using callback_post_failed [OF assms, of code msg err] tr that by simp
  show ?thesis
    using st gone tr quiet np failed by blast
qed

lemma callback_deletes_key_of_Id_demo:
  "Param (store demo_busy 0) = Some \<lparr>JobID = 1, ExecutorHandler = ''demoJob'',
      ExecutorParams = [], ExecutorBlockStrategy = [], ExecutorTimeout = 0\<rparr> \<and>
   Exists (runList demo_busy) ''1'' \<and>
   \<not> Exists (runList (fst (callback demo_busy 0 SuccessCode ''done'' (PostErr ''timeout'')))) ''1'' \<and>
   filter is_Alert (snd (callback demo_busy 0 SuccessCode ''done'' (PostErr ''timeout''))) \<noteq> [] \<and>
   length (filter is_Post (snd (callback demo_busy 0 SuccessCode ''done'' (PostErr ''timeout'')))) = 1"
proof -
  let ?p = "\<lparr>JobID = 1, ExecutorHandler = ''demoJob'',
      ExecutorParams = [], ExecutorBlockStrategy = [], ExecutorTimeout = 0\<rparr>"
  have h: "Param (store demo_busy 0) = Some ?p"
    by code_simp
  have ex: "Exists (runList demo_busy) ''1''"
    by (simp add: demo_busy_runList Exists_def)
  have key: "Int64ToStr (TaskId (store demo_busy 0)) = ''1''"
    by code_simp
  show ?thesis
    using h ex callback_deletes_key_of_Id [OF h, of SuccessCode "''done''" "PostErr ''timeout''"]
    by (auto simp: key)
qed

text \<open>
  C8. The code departs from the property when two jobs run on one handler. In the
  state of C2 the goroutines of job 1 and of job 2 were both started with the shared
  Task, and the running table holds \<open>''1''\<close> and \<open>''2''\<close>. The work of job 1 ends and its
  goroutine calls \<^verbatim>\<open>callback\<close>. The \<^verbatim>\<open>Id\<close> of the object is 2 by now: the key \<open>''2''\<close> is
  deleted and the record posted carries the parameters of job 2. The entry of job 1
  stays in the running table, and a second callback on the same object does not
  remove it either. The order of the deletion and the post, and what follows a post
  that fails, are as the property says.
\<close>

theorem callback_removes_another_job:
  "filter is_Go_Run (snd (run_calls (Init demo_opts) shared_calls)) = [Go_Run 0, Go_Run 0] \<and>
   runList demo_shared = [(''1'', 0), (''2'', 0)] \<and>
   TaskId (store demo_shared 0) = 2 \<and>
   snd (callback demo_shared 0 SuccessCode ''done'' (PostOk (ReadOk ''{}''))) =
     [RunList_Del ''2'',
      Post ''http://127.0.0.1/xxl-job-admin/api/callback''
        (returnCall (Some \<lparr>JobID = 2, ExecutorHandler = ''demoJob'', ExecutorParams = [],
           ExecutorBlockStrategy = [], ExecutorTimeout = 0\<rparr>) SuccessCode ''done''),
      Log_Info ''task callback success:{}''] \<and>
   runList (fst (callback demo_shared 0 SuccessCode ''done'' (PostOk (ReadOk ''{}'')))) =
     [(''1'', 0)] \<and>
   runList (fst (callback
      (fst (callback demo_shared 0 SuccessCode ''done'' (PostOk (ReadOk ''{}''))))
      0 SuccessCode ''done'' (PostOk (ReadOk ''{}'')))) = [(''1'', 0)]"
  by code_simp

text \<open>
  C7, where the code departs from the claim. The message \<open>''task failed''\<close> contains the
  marker \<open>''fail''\<close>. The post succeeds and reading the body of the answer fails:
  \<^verbatim>\<open>callback\<close> logs the read error and returns before it looks at the message, so no
  alert is sent. With the same message an alert is sent when the post itself fails and
  when the body is read.
\<close>

theorem callback_read_error_sends_no_alert:
  "Contains (ToLower ''task failed'') ''fail'' \<and>
   snd (callback demo_busy 0 FailureCode ''task failed'' (PostOk (ReadErr ''unexpected EOF''))) =
     [RunList_Del ''1'',
      Post ''http://127.0.0.1/xxl-job-admin/api/callback''
        (returnCall (Some \<lparr>JobID = 1, ExecutorHandler = ''demoJob'', ExecutorParams = [],
           ExecutorBlockStrategy = [], ExecutorTimeout = 0\<rparr>) FailureCode ''task failed''),
      Log_Error ''callback ReadAll err : ''] \<and>
   filter is_Alert
     (snd (callback demo_busy 0 FailureCode ''task failed'' (PostOk (ReadErr ''unexpected EOF'')))) = [] \<and>
   filter is_Alert
     (snd (callback demo_busy 0 FailureCode ''task failed'' (PostErr ''connection refused''))) \<noteq> [] \<and>
   filter is_Alert
     (snd (callback demo_busy 0 FailureCode ''task failed'' (PostOk (ReadOk ''{}'')))) \<noteq> []"
  by code_simp

end
